theory Spec2Isabelle
  imports Complex_Main "HOL-Library.Word"
begin

section \<open>The operating-system boundary\<close>

text \<open>
  The module \<^verbatim>\<open>pyusbtmc.py\<close> talks to the instrument through \<^verbatim>\<open>os.open\<close>,
  \<^verbatim>\<open>os.write\<close>, \<^verbatim>\<open>os.read\<close> and \<^verbatim>\<open>os.close\<close> on one file descriptor. The
  descriptor, the instrument behind it and the diagnostic stream are the state every
  method threads through; exceptions are values of a sum type.
\<close>

datatype py_error =
    OSError nat        \<comment> \<open>\<^verbatim>\<open>OSError\<close>, carrying \<^verbatim>\<open>e.args[0]\<close>, the errno\<close>
  | IOError string     \<comment> \<open>raised by \<^verbatim>\<open>open(filename, 'w')\<close>\<close>
  | ValueError         \<comment> \<open>raised by \<^verbatim>\<open>float\<close>, \<^verbatim>\<open>numpy.frombuffer\<close>, a closed file\<close>
  | ZeroDivisionError  \<comment> \<open>raised by the division of two Python floats\<close>
  | IndexError         \<comment> \<open>raised by indexing an array out of range\<close>

datatype syscall =
    OsWrite string     \<comment> \<open>\<^verbatim>\<open>os.write(self.FILE, command)\<close>\<close>
  | OsRead nat         \<comment> \<open>\<^verbatim>\<open>os.read(self.FILE, length)\<close>\<close>
  | OsClose            \<comment> \<open>\<^verbatim>\<open>os.close(self.FILE)\<close>\<close>

datatype diag =
    Write_Error nat    \<comment> \<open>\<^verbatim>\<open>"Write Error: ", e\<close>\<close>
  | Read_Timeout       \<comment> \<open>\<^verbatim>\<open>"Read Error: Read timeout"\<close>\<close>
  | Read_Error nat     \<comment> \<open>\<^verbatim>\<open>"Read Error: ", e\<close>\<close>

datatype stream = Stdout | File string

record world =
  fd_open :: bool                     \<comment> \<open>\<^verbatim>\<open>self.FILE\<close> still names an open descriptor\<close>
  calls :: "syscall list"             \<comment> \<open>the system calls issued so far, oldest first\<close>
  reads :: "(nat + string) list"      \<comment> \<open>what the coming \<^verbatim>\<open>os.read\<close> calls meet: an errno or the bytes on offer\<close>
  writes :: "nat option list"         \<comment> \<open>what the coming \<^verbatim>\<open>os.write\<close> calls meet: an errno, or success\<close>
  stderr :: "diag list"               \<comment> \<open>the lines printed to \<^verbatim>\<open>sys.stderr\<close>\<close>
  stdout :: string                    \<comment> \<open>the text written to \<^verbatim>\<open>sys.stdout\<close>\<close>
  stdout_closed :: bool               \<comment> \<open>\<^verbatim>\<open>sys.stdout.close()\<close> has been called\<close>
  files :: "string \<rightharpoonup> string"       \<comment> \<open>the contents of the files, by name\<close>
  open_files :: "string list"         \<comment> \<open>the files open for writing\<close>
  unwritable :: "string list"         \<comment> \<open>names that \<^verbatim>\<open>open(name, 'w')\<close> refuses\<close>

text \<open>A state to start from: the descriptor open, a silent device, nothing written.\<close>

definition fresh :: world where
  "fresh = \<lparr>fd_open = True, calls = [], reads = [], writes = [], stderr = [], stdout = [],
             stdout_closed = False, files = Map.empty, open_files = [], unwritable = []\<rparr>"

definition EBADF :: nat where "EBADF = 9"
definition ETIMEDOUT :: nat where "ETIMEDOUT = 110"

text \<open>
  \<^verbatim>\<open>os.write\<close>: the call is recorded; on a closed descriptor it fails with \<^verbatim>\<open>EBADF\<close>,
  otherwise the environment decides (an exhausted script means success).
\<close>

definition os_write :: "string \<Rightarrow> world \<Rightarrow> (py_error + unit) \<times> world" where
  "os_write command w =
     (let w1 = w\<lparr>calls := calls w @ [OsWrite command]\<rparr> in
      if \<not> fd_open w then (Inl (OSError EBADF), w1)
      else case writes w of
             [] \<Rightarrow> (Inr (), w1)
           | None # ws \<Rightarrow> (Inr (), w1\<lparr>writes := ws\<rparr>)
           | Some e # ws \<Rightarrow> (Inl (OSError e), w1\<lparr>writes := ws\<rparr>))"

text \<open>
  \<^verbatim>\<open>os.read\<close>: at most \<open>length\<close> bytes of what the device offers are returned (the
  contract of the system call); an exhausted script means the device stays silent and
  the driver times out.
\<close>

definition os_read :: "nat \<Rightarrow> world \<Rightarrow> (py_error + string) \<times> world" where
  "os_read len w =
     (let w1 = w\<lparr>calls := calls w @ [OsRead len]\<rparr> in
      if \<not> fd_open w then (Inl (OSError EBADF), w1)
      else case reads w of
             [] \<Rightarrow> (Inl (OSError ETIMEDOUT), w1)
           | Inl e # rs \<Rightarrow> (Inl (OSError e), w1\<lparr>reads := rs\<rparr>)
           | Inr bs # rs \<Rightarrow> (Inr (take len bs), w1\<lparr>reads := rs\<rparr>))"

definition os_close :: "world \<Rightarrow> (py_error + unit) \<times> world" where
  "os_close w =
     (let w1 = w\<lparr>calls := calls w @ [OsClose]\<rparr> in
      if \<not> fd_open w then (Inl (OSError EBADF), w1)
      else (Inr (), w1\<lparr>fd_open := False\<rparr>))"

text \<open>Sequencing of two effects, the second skipped when the first raises.\<close>

definition bind :: "(world \<Rightarrow> (py_error + 'a) \<times> world) \<Rightarrow>
    ('a \<Rightarrow> world \<Rightarrow> (py_error + 'b) \<times> world) \<Rightarrow> world \<Rightarrow> (py_error + 'b) \<times> world" where
  "bind m f w = (case m w of (Inl e, w1) \<Rightarrow> (Inl e, w1) | (Inr x, w1) \<Rightarrow> f x w1)"

definition return :: "'a \<Rightarrow> world \<Rightarrow> (py_error + 'a) \<times> world" where
  "return x w = (Inr x, w)"

definition raise :: "py_error \<Rightarrow> world \<Rightarrow> (py_error + 'a) \<times> world" where
  "raise e w = (Inl e, w)"

section \<open>Class \<^verbatim>\<open>usbtmc\<close>\<close>

text \<open>\<^verbatim>\<open>usbtmc.write\<close>: an \<^verbatim>\<open>OSError\<close> is printed and swallowed.\<close>

definition usbtmc_write :: "string \<Rightarrow> world \<Rightarrow> (py_error + unit) \<times> world" where
  "usbtmc_write command w =
     (case os_write command w of
        (Inr u, w1) \<Rightarrow> (Inr (), w1)
      | (Inl (OSError e), w1) \<Rightarrow> (Inr (), w1\<lparr>stderr := stderr w1 @ [Write_Error e]\<rparr>)
      | (Inl other, w1) \<Rightarrow> (Inl other, w1))"

text \<open>
  \<^verbatim>\<open>usbtmc.read\<close>: an \<^verbatim>\<open>OSError\<close> is printed (errno 110 as a timeout) and the empty
  string is returned; any other exception would pass through.
\<close>

definition usbtmc_read :: "nat \<Rightarrow> world \<Rightarrow> (py_error + string) \<times> world" where
  "usbtmc_read len w =
     (case os_read len w of
        (Inr bs, w1) \<Rightarrow> (Inr bs, w1)
      | (Inl (OSError e), w1) \<Rightarrow>
          (Inr [], w1\<lparr>stderr := stderr w1 @ [if e = 110 then Read_Timeout else Read_Error e]\<rparr>)
      | (Inl other, w1) \<Rightarrow> (Inl other, w1))"

definition query :: "string \<Rightarrow> nat \<Rightarrow> world \<Rightarrow> (py_error + string) \<times> world" where
  "query command len = bind (usbtmc_write command) (\<lambda>u. usbtmc_read len)"

definition usbtmc_close :: "world \<Rightarrow> (py_error + unit) \<times> world" where
  "usbtmc_close = os_close"

section \<open>Class \<^verbatim>\<open>RigolScope\<close>: commands\<close>

definition stop :: "world \<Rightarrow> (py_error + unit) \<times> world" where
  "stop = usbtmc_write '':STOP''"

definition run :: "world \<Rightarrow> (py_error + unit) \<times> world" where
  "run = usbtmc_write '':RUN''"

definition forceTrigger :: "world \<Rightarrow> (py_error + unit) \<times> world" where
  "forceTrigger = usbtmc_write '':KEY:FORC''"

definition unlock :: "world \<Rightarrow> (py_error + unit) \<times> world" where
  "unlock = forceTrigger"

definition RigolScope_close :: "world \<Rightarrow> (py_error + unit) \<times> world" where
  "RigolScope_close = bind unlock (\<lambda>u. usbtmc_close)"

section \<open>Binary64 floating point\<close>

text \<open>
  Python's \<^verbatim>\<open>float\<close> and numpy's \<^verbatim>\<open>float64\<close> are IEEE 754 binary64 numbers. A
  finite number is \<open>Finite m e\<close>, the value \<open>m * 2 ^ e\<close>, kept with \<open>m\<close> odd, or as
  \<open>Finite 0 0\<close> for \<open>+0.0\<close>; \<open>NegZero\<close> is \<open>-0.0\<close>. Every operation computes the exact
  result and rounds it to 53 significant bits, to nearest, ties to even, with gradual
  underflow below \<open>2 ^ -1022\<close> and overflow to infinity.
\<close>

datatype float64 = Finite int int | NegZero | PInf | NInf | NaN

text \<open>The number of binary digits of \<open>n\<close>.\<close>

function bitlen :: "nat \<Rightarrow> nat" where
  "bitlen n = (if n = 0 then 0 else bitlen (n div 2) + 1)"
  by pat_completeness auto
termination
  by (relation "measure id") auto

declare bitlen.simps [simp del]

text \<open>\<open>m * 2 ^ e\<close> with the factors of two moved from the mantissa to the exponent.\<close>

function normalise :: "int \<Rightarrow> int \<Rightarrow> float64" where
  "normalise m e =
     (if m = 0 then Finite 0 0
      else if even m then normalise (m div 2) (e + 1)
      else Finite m e)"
  by pat_completeness auto
termination
  by (relation "measure (\<lambda>(m, e). nat \<bar>m\<bar>)") auto

declare normalise.simps [simp del]

definition signed_zero :: "bool \<Rightarrow> float64" where
  "signed_zero neg = (if neg then NegZero else Finite 0 0)"

definition infinity :: "bool \<Rightarrow> float64" where
  "infinity neg = (if neg then NInf else PInf)"

text \<open>
  \<open>rne num den\<close> is the integer nearest to \<open>num / den\<close>, the even one of two equally
  near; \<open>rne_pick\<close> chooses between the quotient \<open>d\<close> and \<open>d + 1\<close> from twice the
  remainder.
\<close>

definition rne_pick :: "nat \<Rightarrow> nat \<Rightarrow> nat \<Rightarrow> nat" where
  "rne_pick d r2 den =
     (if r2 < den then d else if den < r2 then d + 1 else if even d then d else d + 1)"

definition rne :: "nat \<Rightarrow> nat \<Rightarrow> nat" where
  "rne num den = rne_pick (num div den) (2 * (num mod den)) den"

text \<open>
  \<open>exponent p q\<close> is \<open>\<lfloor>log\<^sub>2 (p / q)\<rfloor>\<close> for positive \<open>p\<close> and \<open>q\<close>: the difference \<open>d\<close>
  of the bit lengths, or one less.
\<close>

definition exponent_near :: "nat \<Rightarrow> nat \<Rightarrow> int \<Rightarrow> int" where
  "exponent_near p q d = (if q * 2 ^ nat d \<le> p * 2 ^ nat (- d) then d else d - 1)"

definition exponent :: "nat \<Rightarrow> nat \<Rightarrow> int" where
  "exponent p q = exponent_near p q (int (bitlen p) - int (bitlen q))"

text \<open>The exponent of the last mantissa bit of a number whose leading bit has exponent \<open>E\<close>.\<close>

definition quantum :: "int \<Rightarrow> int" where
  "quantum E = max (E - 52) (- 1074)"

definition pack :: "bool \<Rightarrow> nat \<Rightarrow> int \<Rightarrow> float64" where
  "pack neg n t =
     (if n = 0 then signed_zero neg
      else if 1024 < int (bitlen n) + t then infinity neg
      else normalise (if neg then - int n else int n) t)"

definition round_to :: "bool \<Rightarrow> nat \<Rightarrow> nat \<Rightarrow> int \<Rightarrow> int \<Rightarrow> float64" where
  "round_to neg p q k t = pack neg (rne (p * 2 ^ nat (k - t)) (q * 2 ^ nat (t - k))) t"

text \<open>\<open>round64 neg p q k\<close> is the binary64 number nearest to \<open>\<plusminus> (p / q) * 2 ^ k\<close>.\<close>

definition round64 :: "bool \<Rightarrow> nat \<Rightarrow> nat \<Rightarrow> int \<Rightarrow> float64" where
  "round64 neg p q k =
     (if p = 0 then signed_zero neg
      else round_to neg p q k (quantum (exponent p q + k)))"

definition is_neg :: "float64 \<Rightarrow> bool" where
  "is_neg x = (case x of Finite m e \<Rightarrow> m < 0 | NegZero \<Rightarrow> True | NInf \<Rightarrow> True | _ \<Rightarrow> False)"

definition is_zero :: "float64 \<Rightarrow> bool" where
  "is_zero x = (x = Finite 0 0 \<or> x = NegZero)"

definition is_inf :: "float64 \<Rightarrow> bool" where
  "is_inf x = (x = PInf \<or> x = NInf)"

fun is_finite :: "float64 \<Rightarrow> bool" where
  "is_finite (Finite m e) = True"
| "is_finite NegZero = True"
| "is_finite x = False"

fun fneg :: "float64 \<Rightarrow> float64" where
  "fneg (Finite m e) = (if m = 0 then NegZero else Finite (- m) e)"
| "fneg NegZero = Finite 0 0"
| "fneg PInf = NInf"
| "fneg NInf = PInf"
| "fneg NaN = NaN"

fun fabs :: "float64 \<Rightarrow> float64" where
  "fabs (Finite m e) = Finite \<bar>m\<bar> e"
| "fabs NegZero = Finite 0 0"
| "fabs PInf = PInf"
| "fabs NInf = PInf"
| "fabs NaN = NaN"

definition add_exact :: "int \<Rightarrow> int \<Rightarrow> float64" where
  "add_exact s e = round64 (s < 0) (nat \<bar>s\<bar>) 1 e"

fun fadd :: "float64 \<Rightarrow> float64 \<Rightarrow> float64" where
  "fadd NaN y = NaN"
| "fadd x NaN = NaN"
| "fadd PInf y = (if y = NInf then NaN else PInf)"
| "fadd NInf y = (if y = PInf then NaN else NInf)"
| "fadd x PInf = PInf"
| "fadd x NInf = NInf"
| "fadd NegZero y = y"
| "fadd x NegZero = x"
| "fadd (Finite m1 e1) (Finite m2 e2) =
     add_exact (m1 * 2 ^ nat (e1 - min e1 e2) + m2 * 2 ^ nat (e2 - min e1 e2)) (min e1 e2)"

definition fsub :: "float64 \<Rightarrow> float64 \<Rightarrow> float64" where
  "fsub x y = fadd x (fneg y)"

fun fmul :: "float64 \<Rightarrow> float64 \<Rightarrow> float64" where
  "fmul NaN y = NaN"
| "fmul x NaN = NaN"
| "fmul (Finite m1 e1) (Finite m2 e2) =
     round64 ((m1 < 0) \<noteq> (m2 < 0)) (nat \<bar>m1 * m2\<bar>) 1 (e1 + e2)"
| "fmul x y =
     (if is_zero x \<or> is_zero y then
        (if is_inf x \<or> is_inf y then NaN else signed_zero (is_neg x \<noteq> is_neg y))
      else infinity (is_neg x \<noteq> is_neg y))"

text \<open>IEEE division, as numpy performs it: a division by zero gives an infinity or NaN.\<close>

fun fdiv :: "float64 \<Rightarrow> float64 \<Rightarrow> float64" where
  "fdiv NaN y = NaN"
| "fdiv x NaN = NaN"
| "fdiv (Finite m1 e1) (Finite m2 e2) =
     (if m2 = 0 then (if m1 = 0 then NaN else infinity (m1 < 0))
      else round64 ((m1 < 0) \<noteq> (m2 < 0)) (nat \<bar>m1\<bar>) (nat \<bar>m2\<bar>) (e1 - e2))"
| "fdiv x y =
     (if is_inf x then (if is_inf y then NaN else infinity (is_neg x \<noteq> is_neg y))
      else if is_inf y then signed_zero (is_neg x \<noteq> is_neg y)
      else if is_zero y then (if is_zero x then NaN else infinity (is_neg x \<noteq> is_neg y))
      else signed_zero (is_neg x \<noteq> is_neg y))"

text \<open>The division of two Python floats raises on a zero divisor.\<close>

definition py_truediv :: "float64 \<Rightarrow> float64 \<Rightarrow> py_error + float64" where
  "py_truediv x y = (if is_zero y then Inl ZeroDivisionError else Inr (fdiv x y))"

definition float_of_int :: "int \<Rightarrow> float64" where
  "float_of_int i = round64 (i < 0) (nat \<bar>i\<bar>) 1 0"

text \<open>The comparison \<^verbatim>\<open><\<close> of two floats; it is false when either is NaN.\<close>

definition fin_less :: "int \<Rightarrow> int \<Rightarrow> int \<Rightarrow> int \<Rightarrow> bool" where
  "fin_less m1 e1 m2 e2 =
     (m1 * 2 ^ nat (e1 - min e1 e2) < m2 * 2 ^ nat (e2 - min e1 e2))"

fun fless :: "float64 \<Rightarrow> float64 \<Rightarrow> bool" where
  "fless NaN y = False"
| "fless x NaN = False"
| "fless PInf y = False"
| "fless x NInf = False"
| "fless NInf y = True"
| "fless x PInf = True"
| "fless (Finite m1 e1) (Finite m2 e2) = fin_less m1 e1 m2 e2"
| "fless (Finite m1 e1) NegZero = (m1 < 0)"
| "fless NegZero (Finite m2 e2) = (0 < m2)"
| "fless NegZero NegZero = False"

text \<open>The real number a finite float stands for.\<close>

fun valof :: "float64 \<Rightarrow> real" where
  "valof (Finite m e) = (if 0 \<le> e then of_int m * 2 ^ nat e else of_int m / 2 ^ nat (- e))"
| "valof x = 0"

section \<open>Python's \<^verbatim>\<open>str\<close> and \<^verbatim>\<open>float\<close>\<close>

function str_nat :: "nat \<Rightarrow> string" where
  "str_nat n =
     (if n < 10 then [''0123456789'' ! n]
      else str_nat (n div 10) @ [''0123456789'' ! (n mod 10)])"
  by pat_completeness auto
termination
  by (relation "measure id") auto

declare str_nat.simps [simp del]

text \<open>\<^verbatim>\<open>str(i)\<close> for an integer.\<close>

definition str :: "int \<Rightarrow> string" where
  "str i = (if i < 0 then CHR ''-'' # str_nat (nat (- i)) else str_nat (nat i))"

definition is_space :: "char \<Rightarrow> bool" where
  "is_space c = ((of_char c :: nat) \<in> {9, 10, 11, 12, 13, 32})"

definition is_digit :: "char \<Rightarrow> bool" where
  "is_digit c = (48 \<le> (of_char c :: nat) \<and> (of_char c :: nat) \<le> 57)"

definition lower :: "char \<Rightarrow> char" where
  "lower c = (if 65 \<le> (of_char c :: nat) \<and> (of_char c :: nat) \<le> 90
              then char_of ((of_char c :: nat) + 32) else c)"

definition strip :: "string \<Rightarrow> string" where
  "strip s = rev (dropWhile is_space (rev (dropWhile is_space s)))"

definition digits_val :: "string \<Rightarrow> nat" where
  "digits_val ds = foldl (\<lambda>a c. 10 * a + ((of_char c :: nat) - 48)) 0 ds"

definition split_sign :: "string \<Rightarrow> bool \<times> string" where
  "split_sign s =
     (case s of
        [] \<Rightarrow> (False, [])
      | c # r \<Rightarrow> if c = CHR ''-'' then (True, r) else if c = CHR ''+'' then (False, r) else (False, s))"

text \<open>What may follow the mantissa: nothing, or \<^verbatim>\<open>e\<close>, an optional sign and digits.\<close>

definition parse_exponent :: "string \<Rightarrow> int option" where
  "parse_exponent s =
     (case s of
        [] \<Rightarrow> Some 0
      | c # r \<Rightarrow>
          if c = CHR ''e'' \<or> c = CHR ''E'' then
            (case split_sign r of
               (neg, ds) \<Rightarrow>
                 if ds \<noteq> [] \<and> list_all is_digit ds
                 then Some (if neg then - int (digits_val ds) else int (digits_val ds))
                 else None)
          else None)"

text \<open>The float nearest to \<open>\<plusminus> D * 10 ^ x\<close>.\<close>

definition decimal_value :: "bool \<Rightarrow> nat \<Rightarrow> int \<Rightarrow> float64" where
  "decimal_value neg D x =
     (if 0 \<le> x then round64 neg (D * 10 ^ nat x) 1 0 else round64 neg D (10 ^ nat (- x)) 0)"

definition fraction_part :: "string \<Rightarrow> string" where
  "fraction_part r = (case r of [] \<Rightarrow> [] | c # t \<Rightarrow> if c = CHR ''.'' then takeWhile is_digit t else [])"

definition after_fraction :: "string \<Rightarrow> string" where
  "after_fraction r = (case r of [] \<Rightarrow> [] | c # t \<Rightarrow> if c = CHR ''.'' then dropWhile is_digit t else r)"

definition parse_decimal :: "bool \<Rightarrow> string \<Rightarrow> float64 option" where
  "parse_decimal neg s =
     (let ip = takeWhile is_digit s;
          fp = fraction_part (dropWhile is_digit s)
      in if ip = [] \<and> fp = [] then None
         else case parse_exponent (after_fraction (dropWhile is_digit s)) of
                None \<Rightarrow> None
              | Some x \<Rightarrow> Some (decimal_value neg (digits_val (ip @ fp)) (x - int (length fp))))"

text \<open>
  \<^verbatim>\<open>float(s)\<close> for a byte string, as Python 2.7 parses it: surrounding white space is
  dropped, then come an optional sign and either \<^verbatim>\<open>inf\<close>, \<^verbatim>\<open>infinity\<close> or \<^verbatim>\<open>nan\<close> in any
  case, or a decimal number with at least one digit and an optional exponent. \<open>None\<close>
  stands for \<^verbatim>\<open>ValueError\<close>.
\<close>

definition pyfloat :: "string \<Rightarrow> float64 option" where
  "pyfloat s =
     (case split_sign (strip s) of
        (neg, body) \<Rightarrow>
          if map lower body = ''inf'' \<or> map lower body = ''infinity'' then Some (infinity neg)
          else if map lower body = ''nan'' then Some NaN
          else parse_decimal neg body)"

definition float :: "string \<Rightarrow> world \<Rightarrow> (py_error + float64) \<times> world" where
  "float s = (case pyfloat s of None \<Rightarrow> raise ValueError | Some x \<Rightarrow> return x)"

section \<open>The numpy operations used\<close>

text \<open>
  \<^verbatim>\<open>numpy.frombuffer(buf, dtype='B', offset=offset)\<close>: the bytes from \<open>offset\<close> on as
  unsigned 8-bit integers; an offset beyond the end of the buffer is a \<^verbatim>\<open>ValueError\<close>.
\<close>

definition frombuffer :: "string \<Rightarrow> nat \<Rightarrow> py_error + 8 word list" where
  "frombuffer buf offset =
     (if length buf < offset then Inl ValueError else Inr (map of_char (drop offset buf)))"

definition float_of_uint8 :: "8 word \<Rightarrow> float64" where
  "float_of_uint8 s = float_of_int (uint s)"

text \<open>
  \<^verbatim>\<open>numpy.linspace(start, stop, num)\<close>: \<^verbatim>\<open>arange(0, num) * step + start\<close> with
  \<^verbatim>\<open>step = (stop - start) / (num - 1)\<close>, and the last entry overwritten with
  \<^verbatim>\<open>stop\<close>.
\<close>

definition linspace_point :: "float64 \<Rightarrow> float64 \<Rightarrow> nat \<Rightarrow> float64" where
  "linspace_point step start i = fadd (fmul (float_of_int (int i)) step) start"

definition linspace :: "float64 \<Rightarrow> float64 \<Rightarrow> nat \<Rightarrow> float64 list" where
  "linspace start final num =
     (if num = 0 then []
      else if num = 1 then [start]
      else map (linspace_point (fdiv (fsub final start) (float_of_int (int num - 1))) start)
             [0..<num - 1] @ [final])"

definition zeros :: "nat \<Rightarrow> float64 list" where
  "zeros n = replicate n (Finite 0 0)"

section \<open>Class \<^verbatim>\<open>RigolScope\<close>: waveform and axes\<close>

definition RIGOL_WAV_PREAMBLE_LENGTH :: nat where
  "RIGOL_WAV_PREAMBLE_LENGTH = 10"

definition lift :: "py_error + 'a \<Rightarrow> world \<Rightarrow> (py_error + 'a) \<times> world" where
  "lift r w = (r, w)"

definition readRawData :: "int \<Rightarrow> world \<Rightarrow> (py_error + string) \<times> world" where
  "readRawData chan =
     bind (usbtmc_write ('':WAV:DATA? CHAN'' @ str chan)) (\<lambda>u. usbtmc_read 9000)"

definition readData :: "int \<Rightarrow> world \<Rightarrow> (py_error + 8 word list) \<times> world" where
  "readData chan =
     bind (readRawData chan) (\<lambda>rawdata. lift (frombuffer rawdata RIGOL_WAV_PREAMBLE_LENGTH))"

definition getVoltScale :: "int \<Rightarrow> world \<Rightarrow> (py_error + float64) \<times> world" where
  "getVoltScale chan = bind (query ('':CHAN'' @ str chan @ '':SCAL?'') 20) float"

definition getVoltOffset :: "int \<Rightarrow> world \<Rightarrow> (py_error + float64) \<times> world" where
  "getVoltOffset chan = bind (query ('':CHAN'' @ str chan @ '':OFFS?'') 20) float"

definition getTimeScale :: "world \<Rightarrow> (py_error + float64) \<times> world" where
  "getTimeScale = bind (query '':TIM:SCAL?'' 20) float"

definition getTimeOffset :: "world \<Rightarrow> (py_error + float64) \<times> world" where
  "getTimeOffset = bind (query '':TIM:OFFS?'' 20) float"

text \<open>
  The arithmetic of \<^verbatim>\<open>getScaledWaveform\<close>: \<^verbatim>\<open>data = 255 - data\<close> on the unsigned
  bytes, then \<^verbatim>\<open>(data - 130.0 - voltoffset/voltscale*25) / 25 * voltscale\<close> in floats,
  where \<^verbatim>\<open>voltoffset/voltscale\<close> divides two Python floats.
\<close>

definition scale_waveform :: "8 word list \<Rightarrow> float64 \<Rightarrow> float64 \<Rightarrow> py_error + float64 list" where
  "scale_waveform data voltscale voltoffset =
     (let inverted = map (\<lambda>s. 255 - s) data in
      case py_truediv voltoffset voltscale of
        Inl e \<Rightarrow> Inl e
      | Inr r \<Rightarrow>
          Inr (map (\<lambda>d. fmul (fdiv (fsub (fsub (float_of_uint8 d) (float_of_int 130))
                                         (fmul r (float_of_int 25)))
                                   (float_of_int 25))
                             voltscale)
                 inverted))"

definition getScaledWaveform :: "int \<Rightarrow> world \<Rightarrow> (py_error + float64 list) \<times> world" where
  "getScaledWaveform chan =
     bind (readData chan) (\<lambda>data.
     bind (getVoltScale chan) (\<lambda>voltscale.
     bind (getVoltOffset chan) (\<lambda>voltoffset.
     lift (scale_waveform data voltscale voltoffset))))"

text \<open>
  The arithmetic of \<^verbatim>\<open>getTimeAxis\<close>: \<^verbatim>\<open>timespan = 300./50*timescale\<close> and
  \<^verbatim>\<open>numpy.linspace(-timespan, +timespan, 600)\<close>. The offset fetched from the scope is a
  parameter here, as it is a local variable there.
\<close>

definition time_axis :: "float64 \<Rightarrow> float64 \<Rightarrow> float64 list" where
  "time_axis timescale timeoffset =
     linspace (fneg (fmul (fdiv (float_of_int 300) (float_of_int 50)) timescale))
              (fmul (fdiv (float_of_int 300) (float_of_int 50)) timescale) 600"

definition getTimeAxis :: "world \<Rightarrow> (py_error + float64 list) \<times> world" where
  "getTimeAxis =
     bind getTimeScale (\<lambda>timescale.
     bind getTimeOffset (\<lambda>timeoffset.
     return (time_axis timescale timeoffset)))"

text \<open>
  The voltage transform as the specification words it, for one sample given as a
  number: \<open>inverted = 255 - s\<close>, then
  \<open>((inverted - 130.0 - (voltOffset / voltScale) * 25.0) / 25.0) * voltScale\<close>.
\<close>

definition scaleVoltage :: "nat \<Rightarrow> float64 \<Rightarrow> float64 \<Rightarrow> float64" where
  "scaleVoltage s voltScale voltOffset =
     (let inverted = 255 - int s in
      fmul (fdiv (fsub (fsub (float_of_int inverted) (float_of_int 130))
                       (fmul (fdiv voltOffset voltScale) (float_of_int 25)))
                 (float_of_int 25))
           voltScale)"

section \<open>Properties of the transport\<close>

lemma os_read_cases:
  "(\<exists>e w1. os_read len w = (Inl (OSError e), w1)) \<or>
   (\<exists>bs w1. os_read len w = (Inr bs, w1) \<and> length bs \<le> len)"
  by (auto simp: os_read_def Let_def split: list.splits sum.splits)

lemma os_write_cases:
  "(\<exists>e w1. os_write c w = (Inl (OSError e), w1) \<and> calls w1 = calls w @ [OsWrite c] \<and> fd_open w1 = fd_open w) \<or>
   (\<exists>w1. os_write c w = (Inr (), w1) \<and> calls w1 = calls w @ [OsWrite c] \<and> fd_open w1 = fd_open w)"
  by (auto simp: os_write_def Let_def split: list.splits option.splits)

lemma usbtmc_write_returns:
  "\<exists>w1. usbtmc_write c w = (Inr (), w1) \<and> calls w1 = calls w @ [OsWrite c] \<and> fd_open w1 = fd_open w"
  using os_write_cases [of c w] by (auto simp: usbtmc_write_def)

lemma os_close_calls: "calls (snd (os_close w)) = calls w @ [OsClose]"
  by (simp add: os_close_def Let_def)

text \<open>
  C6. \<^verbatim>\<open>usbtmc.read\<close> never raises: whatever \<^verbatim>\<open>os.read\<close> does, the caller gets a byte
  string. It is empty when \<^verbatim>\<open>os.read\<close> failed, with errno 110 (timed out) or with any
  other errno, and it is what \<^verbatim>\<open>os.read\<close> returned, at most \<open>len\<close> bytes, otherwise.
\<close>

theorem usbtmc_read_never_raises:
  "fst (usbtmc_read len w) =
     Inr (case fst (os_read len w) of Inl e \<Rightarrow> [] | Inr bs \<Rightarrow> bs) \<and>
   length (case fst (os_read len w) of Inl e \<Rightarrow> [] | Inr bs \<Rightarrow> bs) \<le> len"
  using os_read_cases [of len w] by (auto simp: usbtmc_read_def)

lemma usbtmc_read_timeout:
  "fst (os_read len w) = Inl (OSError 110) \<Longrightarrow>
   fst (usbtmc_read len w) = Inr [] \<and>
   stderr (snd (usbtmc_read len w)) = stderr w @ [Read_Timeout]"
  by (auto simp: usbtmc_read_def os_read_def Let_def ETIMEDOUT_def EBADF_def
      split: list.splits sum.splits if_splits)

lemma usbtmc_read_other_failure:
  "fst (os_read len w) = Inl (OSError e) \<Longrightarrow> e \<noteq> 110 \<Longrightarrow>
   fst (usbtmc_read len w) = Inr [] \<and>
   stderr (snd (usbtmc_read len w)) = stderr w @ [Read_Error e]"
  by (auto simp: usbtmc_read_def os_read_def Let_def ETIMEDOUT_def EBADF_def
      split: list.splits sum.splits if_splits)

text \<open>
  C7. \<^verbatim>\<open>RigolScope.close\<close> issues exactly two system calls, in this order: the write
  of \<^verbatim>\<open>:KEY:FORC\<close> (the unlock), then the close of the descriptor. This holds in every
  state, also when the write fails or the descriptor is already closed.
\<close>

theorem RigolScope_close_unlocks_first:
  "calls (snd (RigolScope_close w)) = calls w @ [OsWrite '':KEY:FORC'', OsClose]"
proof -
  obtain w1 where w1: "usbtmc_write '':KEY:FORC'' w = (Inr (), w1)"
    and c1: "calls w1 = calls w @ [OsWrite '':KEY:FORC'']"
    using usbtmc_write_returns [of "'':KEY:FORC''" w] by blast
  have "RigolScope_close w = os_close w1"
    by (simp add: RigolScope_close_def bind_def unlock_def forceTrigger_def usbtmc_close_def w1)
  then show ?thesis
    by (simp add: os_close_calls c1)
qed

text \<open>
  C9. \<^verbatim>\<open>unlock\<close> and \<^verbatim>\<open>forceTrigger\<close> are the same operation: in every state both
  return the same result and the same state, which is that of one write of
  \<^verbatim>\<open>:KEY:FORC\<close>; the one system call they add is that \<^verbatim>\<open>os.write\<close>.
\<close>

theorem unlock_is_forceTrigger:
  "unlock w = forceTrigger w \<and>
   forceTrigger w = usbtmc_write '':KEY:FORC'' w \<and>
   fst (unlock w) = Inr () \<and>
   calls (snd (unlock w)) = calls w @ [OsWrite '':KEY:FORC''] \<and>
   fd_open (snd (unlock w)) = fd_open w"
  using usbtmc_write_returns [of "'':KEY:FORC''" w]
  by (auto simp: unlock_def forceTrigger_def)

section \<open>Evaluating the floating-point operations\<close>

text \<open>
  The recursions of \<open>bitlen\<close> and \<open>normalise\<close> follow the binary digits of a numeral,
  so the simplifier computes every operation on literal floats.
\<close>

lemma bitlen_double: "0 < n \<Longrightarrow> bitlen (2 * n) = bitlen n + 1"
  by (subst bitlen.simps) simp

lemma bitlen_double_Suc: "bitlen (2 * n + 1) = bitlen n + 1"
  by (subst bitlen.simps) simp

lemma bitlen_numeral [simp]:
  "bitlen 0 = 0"
  "bitlen 1 = 1"
  "bitlen (Suc 0) = 1"
  "bitlen (numeral Num.One) = 1"
  "bitlen (numeral (Num.Bit0 k)) = bitlen (numeral k) + 1"
  "bitlen (numeral (Num.Bit1 k)) = bitlen (numeral k) + 1"
proof -
  show "bitlen 0 = 0" by (simp add: bitlen.simps)
  show b1: "bitlen 1 = 1" by (simp add: bitlen.simps)
  then show "bitlen (Suc 0) = 1" by simp
  show "bitlen (numeral Num.One) = 1" using b1 by simp
  have "(numeral (Num.Bit0 k)::nat) = 2 * numeral k"
    by (rule numeral_Bit0_eq_double)
  then show "bitlen (numeral (Num.Bit0 k)) = bitlen (numeral k) + 1"
    using bitlen_double [of "numeral k"] by (simp only: zero_less_numeral)
  have "(numeral (Num.Bit1 k)::nat) = 2 * numeral k + 1"
    by (rule numeral_Bit1_eq_inc_double)
  then show "bitlen (numeral (Num.Bit1 k)) = bitlen (numeral k) + 1"
    using bitlen_double_Suc [of "numeral k"] by (simp only:)
qed

lemma normalise_double: "m \<noteq> 0 \<Longrightarrow> normalise (2 * m) e = normalise m (e + 1)"
  by (subst normalise.simps) simp

lemma normalise_odd: "odd m \<Longrightarrow> normalise m e = Finite m e"
  by (subst normalise.simps) auto

lemma normalise_numeral [simp]:
  "normalise 0 e = Finite 0 0"
  "normalise 1 e = Finite 1 e"
  "normalise (- 1) e = Finite (- 1) e"
  "normalise (numeral Num.One) e = Finite 1 e"
  "normalise (- numeral Num.One) e = Finite (- 1) e"
  "normalise (numeral (Num.Bit0 k)) e = normalise (numeral k) (e + 1)"
  "normalise (numeral (Num.Bit1 k)) e = Finite (numeral (Num.Bit1 k)) e"
  "normalise (- numeral (Num.Bit0 k)) e = normalise (- numeral k) (e + 1)"
  "normalise (- numeral (Num.Bit1 k)) e = Finite (- numeral (Num.Bit1 k)) e"
proof -
  show "normalise 0 e = Finite 0 0" by (subst normalise.simps) simp
  show "normalise 1 e = Finite 1 e" by (rule normalise_odd) simp
  show "normalise (- 1) e = Finite (- 1) e" by (rule normalise_odd) simp
  show "normalise (numeral Num.One) e = Finite 1 e"
    using normalise_odd [of 1 e] by simp
  show "normalise (- numeral Num.One) e = Finite (- 1) e"
    using normalise_odd [of "- 1" e] by simp
  have "(numeral (Num.Bit0 k)::int) = 2 * numeral k"
    by (rule numeral_Bit0_eq_double)
  then show "normalise (numeral (Num.Bit0 k)) e = normalise (numeral k) (e + 1)"
    using normalise_double [of "numeral k" e] by (simp only: zero_neq_numeral not_False_eq_True numeral_neq_zero)
  show "normalise (numeral (Num.Bit1 k)) e = Finite (numeral (Num.Bit1 k)) e"
    by (rule normalise_odd) simp
  have "(numeral (Num.Bit0 k)::int) = 2 * numeral k"
    by (rule numeral_Bit0_eq_double)
  then have "(- numeral (Num.Bit0 k)::int) = 2 * (- numeral k)"
    by (simp only: mult_minus_right)
  then show "normalise (- numeral (Num.Bit0 k)) e = normalise (- numeral k) (e + 1)"
    using normalise_double [of "- numeral k" e] by (simp only: neg_numeral_neq_zero not_False_eq_True neg_equal_0_iff_equal numeral_neq_zero)
  show "normalise (- numeral (Num.Bit1 k)) e = Finite (- numeral (Num.Bit1 k)) e"
    by (rule normalise_odd) simp
qed

lemmas fl_eval = float_of_int_def round64_def round_to_def pack_def quantum_def exponent_def
  exponent_near_def rne_def rne_pick_def signed_zero_def infinity_def add_exact_def fsub_def
  is_neg_def is_zero_def is_inf_def fin_less_def

section \<open>Properties of queries\<close>

lemma usbtmc_write_frame:
  "\<exists>w1. usbtmc_write c w = (Inr (), w1) \<and> fd_open w1 = fd_open w \<and> reads w1 = reads w"
  by (auto simp: usbtmc_write_def os_write_def Let_def split: list.splits option.splits)

lemma usbtmc_read_returns: "\<exists>resp w1. usbtmc_read len w = (Inr resp, w1)"
  using os_read_cases [of len w] by (auto simp: usbtmc_read_def)

lemma query_returns: "\<exists>resp w1. query c len w = (Inr resp, w1)"
proof -
  obtain w1 where "usbtmc_write c w = (Inr (), w1)"
    using usbtmc_write_frame [of c w] by blast
  moreover obtain resp w2 where "usbtmc_read len w1 = (Inr resp, w2)"
    using usbtmc_read_returns [of len w1] by blast
  ultimately show ?thesis by (simp add: query_def bind_def)
qed

lemma query_reply:
  assumes "fd_open w" and "reads w = Inr s # rs"
  shows "\<exists>w1. query c len w = (Inr (take len s), w1) \<and> fd_open w1 \<and> reads w1 = rs"
proof -
  obtain w1 where w1: "usbtmc_write c w = (Inr (), w1)" "fd_open w1 = fd_open w"
      "reads w1 = reads w"
    using usbtmc_write_frame [of c w] by blast
  with assms
  have "\<exists>w2. usbtmc_read len w1 = (Inr (take len s), w2) \<and> fd_open w2 \<and> reads w2 = rs"
    by (simp add: usbtmc_read_def os_read_def Let_def)
  with w1 show ?thesis by (auto simp: query_def bind_def)
qed

lemma query_silent:
  assumes "reads w = []"
  shows "\<exists>w1. query c len w = (Inr [], w1) \<and> reads w1 = []"
proof -
  obtain w1 where w1: "usbtmc_write c w = (Inr (), w1)" "fd_open w1 = fd_open w"
      "reads w1 = reads w"
    using usbtmc_write_frame [of c w] by blast
  with assms have "\<exists>w2. usbtmc_read len w1 = (Inr [], w2) \<and> reads w2 = []"
    by (simp add: usbtmc_read_def os_read_def Let_def)
  with w1 show ?thesis by (auto simp: query_def bind_def)
qed

lemma pyfloat_empty: "pyfloat [] = None"
  by (simp add: pyfloat_def strip_def split_sign_def parse_decimal_def fraction_part_def)

lemma float_fails: "pyfloat resp = None \<Longrightarrow> float resp w = (Inl ValueError, w)"
  by (simp add: float_def raise_def)

lemmas parse_eval = pyfloat_def strip_def split_sign_def parse_decimal_def fraction_part_def
  after_fraction_def parse_exponent_def is_space_def is_digit_def lower_def digits_val_def
  decimal_value_def Let_def

lemma pyfloat_examples:
  "pyfloat ''1.000e+02'' = Some (Finite 25 2)"
  "pyfloat '' -2.5E-1 '' = Some (Finite (- 1) (- 2))"
  "pyfloat ''0.1'' = Some (Finite 3602879701896397 (- 55))"
  "pyfloat ''abc'' = None"
  "pyfloat ''1e'' = None"
  by (simp_all add: parse_eval fl_eval)

section \<open>The voltage transform\<close>

lemma uint8_invert: "uint (255 - s :: 8 word) = 255 - uint s"
proof -
  have "uint s \<le> uint (255 :: 8 word)"
    using uint_lt2p [of s] by simp
  then have "uint (255 - s) = uint (255 :: 8 word) - uint s"
    by (rule uint_sub_lem [THEN iffD1])
  then show ?thesis by simp
qed

lemma scale_waveform_zero_scale:
  "is_zero voltscale \<Longrightarrow> scale_waveform data voltscale voltoffset = Inl ZeroDivisionError"
  by (simp add: scale_waveform_def py_truediv_def Let_def)

text \<open>
  C1. For a volt scale that is not zero, \<^verbatim>\<open>getScaledWaveform\<close> computes for every
  sample \<open>s\<close> the number the specification's formula gives: \<open>inverted = 255 - s\<close>
  (the subtraction on unsigned bytes never wraps), then
  \<open>((inverted - 130.0 - (voltOffset / voltScale) * 25.0) / 25.0) * voltScale\<close>, each
  operation rounded as a binary64 operation, in that order. For scale 100, offset 0 and
  sample 130 the result is the float \<open>-5 * 2 ^ 2\<close>, which is exactly \<open>-20\<close>.
\<close>

theorem scale_waveform_formula:
  "(\<not> is_zero voltscale \<longrightarrow>
      scale_waveform data voltscale voltoffset =
        Inr (map (\<lambda>s. scaleVoltage (unat s) voltscale voltoffset) data)) \<and>
   scale_waveform [130] (float_of_int 100) (float_of_int 0) = Inr [Finite (- 5) 2] \<and>
   valof (Finite (- 5) 2) = - 20"
proof (intro conjI impI)
  assume "\<not> is_zero voltscale"
  then show "scale_waveform data voltscale voltoffset =
      Inr (map (\<lambda>s. scaleVoltage (unat s) voltscale voltoffset) data)"
    by (simp add: scale_waveform_def scaleVoltage_def py_truediv_def Let_def
        float_of_uint8_def uint8_invert o_def)
next
  show "scale_waveform [130] (float_of_int 100) (float_of_int 0) = Inr [Finite (- 5) 2]"
    by (simp add: scale_waveform_def py_truediv_def Let_def float_of_uint8_def fl_eval)
next
  show "valof (Finite (- 5) 2) = - 20"
    by simp
qed

theorem scale_waveform_formula_witness:
  "\<not> is_zero (Finite 1 (- 1)) \<and>
   scale_waveform [0, 130, 255] (Finite 1 (- 1)) (Finite 1 0) =
     Inr [Finite 3 (- 1), Finite (- 2476979795053773) (- 51),
          Finite (- 8106479329266893) (- 51)]"
proof -
  have nz: "\<not> is_zero (Finite 1 (- 1))"
    by (simp add: is_zero_def)
  have "\<not> is_zero (Finite 1 (- 1)) \<longrightarrow>
      scale_waveform [0, 130, 255] (Finite 1 (- 1)) (Finite 1 0) =
      Inr (map (\<lambda>s. scaleVoltage (unat s) (Finite 1 (- 1)) (Finite 1 0))
             [0, 130, 255 :: 8 word])"
    using scale_waveform_formula [of "Finite 1 (- 1)" "[0, 130, 255]" "Finite 1 0"]
    by (rule conjunct1)
  then have "scale_waveform [0, 130, 255] (Finite 1 (- 1)) (Finite 1 0) =
      Inr (map (\<lambda>s. scaleVoltage (unat s) (Finite 1 (- 1)) (Finite 1 0))
             [0, 130, 255 :: 8 word])"
    using nz by (rule mp)
  also have "\<dots> = Inr [Finite 3 (- 1), Finite (- 2476979795053773) (- 51),
          Finite (- 8106479329266893) (- 51)]"
    by (simp add: scaleVoltage_def Let_def fl_eval)
  finally show ?thesis
    using nz by simp
qed

section \<open>Decoding the raw waveform\<close>

lemma readData_result:
  assumes "fd_open w" and "reads w = Inr raw # rs"
  shows "fst (readData chan w) = frombuffer (take 9000 raw) RIGOL_WAV_PREAMBLE_LENGTH"
proof -
  obtain w1 where w1: "usbtmc_write ('':WAV:DATA? CHAN'' @ str chan) w = (Inr (), w1)"
      "fd_open w1 = fd_open w" "reads w1 = reads w"
    using usbtmc_write_frame [of "'':WAV:DATA? CHAN'' @ str chan" w] by blast
  with assms have "\<exists>w2. usbtmc_read 9000 w1 = (Inr (take 9000 raw), w2)"
    by (simp add: usbtmc_read_def os_read_def Let_def)
  with w1 show ?thesis
    by (auto simp: readData_def readRawData_def bind_def lift_def)
qed

lemma readData_silent: "fst (readData chan fresh) = Inl ValueError"
proof -
  obtain w1 where w1: "usbtmc_write ('':WAV:DATA? CHAN'' @ str chan) fresh = (Inr (), w1)"
      "fd_open w1 = fd_open fresh" "reads w1 = reads fresh"
    using usbtmc_write_frame [of "'':WAV:DATA? CHAN'' @ str chan" fresh] by blast
  then have "\<exists>w2. usbtmc_read 9000 w1 = (Inr [], w2)"
    by (simp add: usbtmc_read_def os_read_def Let_def fresh_def)
  with w1 show ?thesis
    by (auto simp: readData_def readRawData_def bind_def lift_def frombuffer_def
        RIGOL_WAV_PREAMBLE_LENGTH_def)
qed

text \<open>
  C2, as the code has it. \<^verbatim>\<open>readData\<close> hands the bytes read to
  \<^verbatim>\<open>numpy.frombuffer\<close> with offset 10: a raw sequence of length \<open>L \<ge> 10\<close> gives the
  \<open>L - 10\<close> bytes after the preamble, in order, as unsigned 8-bit samples; a shorter one
  gives no array but a \<^verbatim>\<open>ValueError\<close>.
\<close>

theorem readData_decodes:
  "frombuffer raw RIGOL_WAV_PREAMBLE_LENGTH =
     (if length raw < 10 then Inl ValueError else Inr (map of_char (drop 10 raw))) \<and>
   length (map of_char (drop 10 raw) :: 8 word list) = length raw - 10 \<and>
   readData chan w =
     (case readRawData chan w of
        (Inl e, w1) \<Rightarrow> (Inl e, w1)
      | (Inr rawdata, w1) \<Rightarrow> (frombuffer rawdata RIGOL_WAV_PREAMBLE_LENGTH, w1))"
  by (simp add: frombuffer_def RIGOL_WAV_PREAMBLE_LENGTH_def readData_def bind_def lift_def
      split: prod.splits sum.splits)

text \<open>
  The claim C2 says that fewer than 10 bytes decode to the empty sequence. A scope that
  answers with 9 bytes makes \<^verbatim>\<open>readData\<close> raise instead.
\<close>

theorem readData_short_raises:
  "fst (readData 1 (fresh\<lparr>reads := [Inr ''#80000060'']\<rparr>)) = Inl ValueError \<and>
   fst (readData 1 (fresh\<lparr>reads := [Inr ''#80000060'']\<rparr>)) \<noteq> Inr []"
proof -
  have "fst (readData 1 (fresh\<lparr>reads := [Inr ''#80000060'']\<rparr>)) =
      frombuffer (take 9000 ''#80000060'') RIGOL_WAV_PREAMBLE_LENGTH"
    by (rule readData_result) (simp_all add: fresh_def)
  then show ?thesis
    by (simp add: frombuffer_def RIGOL_WAV_PREAMBLE_LENGTH_def)
qed

section \<open>The numeric queries\<close>

text \<open>
  C5. Each of the four scale and offset queries raises when the reply it read is not
  the text of a float: the exception is the \<^verbatim>\<open>ValueError\<close> of \<^verbatim>\<open>float\<close> (what the
  specification calls \<open>MalformedResponseError\<close>), it reaches the caller, and no number
  is returned in its place.
\<close>

theorem numeric_queries_raise_ValueError:
  "(query ('':CHAN'' @ str chan @ '':SCAL?'') 20 w = (Inr r1, w1) \<and> pyfloat r1 = None \<longrightarrow>
      getVoltScale chan w = (Inl ValueError, w1)) \<and>
   (query ('':CHAN'' @ str chan @ '':OFFS?'') 20 w = (Inr r2, w2) \<and> pyfloat r2 = None \<longrightarrow>
      getVoltOffset chan w = (Inl ValueError, w2)) \<and>
   (query '':TIM:SCAL?'' 20 w = (Inr r3, w3) \<and> pyfloat r3 = None \<longrightarrow>
      getTimeScale w = (Inl ValueError, w3)) \<and>
   (query '':TIM:OFFS?'' 20 w = (Inr r4, w4) \<and> pyfloat r4 = None \<longrightarrow>
      getTimeOffset w = (Inl ValueError, w4))"
  by (simp add: getVoltScale_def getVoltOffset_def getTimeScale_def getTimeOffset_def bind_def
      float_fails)

text \<open>
  The witness is the silent scope: every read times out, every reply is the empty
  string, and all four queries raise.
\<close>

theorem numeric_queries_raise_ValueError_witness:
  "fst (getVoltScale 1 fresh) = Inl ValueError \<and>
   fst (getVoltOffset 1 fresh) = Inl ValueError \<and>
   fst (getTimeScale fresh) = Inl ValueError \<and>
   fst (getTimeOffset fresh) = Inl ValueError"
proof -
  have silent: "reads fresh = []"
    by (simp add: fresh_def)
  obtain w1 where q1: "query ('':CHAN'' @ str 1 @ '':SCAL?'') 20 fresh = (Inr [], w1)"
    using query_silent [OF silent] by blast
  obtain w2 where q2: "query ('':CHAN'' @ str 1 @ '':OFFS?'') 20 fresh = (Inr [], w2)"
    using query_silent [OF silent] by blast
  obtain w3 where q3: "query '':TIM:SCAL?'' 20 fresh = (Inr [], w3)"
    using query_silent [OF silent] by blast
  obtain w4 where q4: "query '':TIM:OFFS?'' 20 fresh = (Inr [], w4)"
    using query_silent [OF silent] by blast
  from numeric_queries_raise_ValueError
    [of 1 fresh "[]" w1 "[]" w2 "[]" w3 "[]" w4] q1 q2 q3 q4 pyfloat_empty
  show ?thesis by simp
qed

section \<open>The time axis\<close>

lemma getTimeAxis_result:
  assumes "fd_open w" and "reads w = Inr s # Inr off # rs"
  shows "fst (getTimeAxis w) =
     (case pyfloat (take 20 s) of
        None \<Rightarrow> Inl ValueError
      | Some timescale \<Rightarrow>
          (case pyfloat (take 20 off) of
             None \<Rightarrow> Inl ValueError
           | Some timeoffset \<Rightarrow> Inr (time_axis timescale timeoffset)))"
proof -
  obtain w1 where w1: "query '':TIM:SCAL?'' 20 w = (Inr (take 20 s), w1)" "fd_open w1"
      "reads w1 = Inr off # rs"
    using query_reply [OF assms, of "'':TIM:SCAL?''" 20] by blast
  obtain w2 where w2: "query '':TIM:OFFS?'' 20 w1 = (Inr (take 20 off), w2)"
    using query_reply [OF w1(2,3), of "'':TIM:OFFS?''" 20] by blast
  show ?thesis
    by (simp add: getTimeAxis_def getTimeScale_def getTimeOffset_def bind_def w1 w2 float_def
        raise_def return_def split: option.splits)
qed

text \<open>
  C4. The axis does not depend on the time offset: the arithmetic never uses it, and
  two runs of \<^verbatim>\<open>getTimeAxis\<close> against scopes that differ only in their reply to
  \<^verbatim>\<open>:TIM:OFFS?\<close>, both replies being floats, return the same.
\<close>

theorem time_axis_ignores_offset:
  "time_axis timescale offset1 = time_axis timescale offset2 \<and>
   (fd_open w \<and> reads w = Inr s # Inr off1 # rs \<and>
    pyfloat (take 20 off1) \<noteq> None \<and> pyfloat (take 20 off2) \<noteq> None \<longrightarrow>
    fst (getTimeAxis (w\<lparr>reads := Inr s # Inr off2 # rs\<rparr>)) = fst (getTimeAxis w))"
proof (intro conjI impI)
  show "time_axis timescale offset1 = time_axis timescale offset2"
    by (simp add: time_axis_def)
next
  assume a: "fd_open w \<and> reads w = Inr s # Inr off1 # rs \<and>
    pyfloat (take 20 off1) \<noteq> None \<and> pyfloat (take 20 off2) \<noteq> None"
  then have 1: "fst (getTimeAxis w) =
     (case pyfloat (take 20 s) of None \<Rightarrow> Inl ValueError
      | Some timescale \<Rightarrow> (case pyfloat (take 20 off1) of None \<Rightarrow> Inl ValueError
           | Some timeoffset \<Rightarrow> Inr (time_axis timescale timeoffset)))"
    by (intro getTimeAxis_result) auto
  from a have 2: "fst (getTimeAxis (w\<lparr>reads := Inr s # Inr off2 # rs\<rparr>)) =
     (case pyfloat (take 20 s) of None \<Rightarrow> Inl ValueError
      | Some timescale \<Rightarrow> (case pyfloat (take 20 off2) of None \<Rightarrow> Inl ValueError
           | Some timeoffset \<Rightarrow> Inr (time_axis timescale timeoffset)))"
    by (intro getTimeAxis_result) auto
  from a show "fst (getTimeAxis (w\<lparr>reads := Inr s # Inr off2 # rs\<rparr>)) = fst (getTimeAxis w)"
    by (auto simp: 1 2 time_axis_def split: option.splits)
qed

text \<open>
  The witness: a scope on a 1 ms timebase, asked once with offset 0 and once with
  offset 0.25 s.
\<close>

theorem time_axis_ignores_offset_witness:
  "pyfloat (take 20 ''0.000e+00'') \<noteq> None \<and> pyfloat (take 20 ''2.500e-01'') \<noteq> None \<and>
   fst (getTimeAxis (fresh\<lparr>reads := [Inr ''1.000e-03'', Inr ''2.500e-01'']\<rparr>)) =
   fst (getTimeAxis (fresh\<lparr>reads := [Inr ''1.000e-03'', Inr ''0.000e+00'']\<rparr>))"
proof -
  have p1: "pyfloat (take 20 ''0.000e+00'') \<noteq> None"
    by (simp add: parse_eval fl_eval)
  have p2: "pyfloat (take 20 ''2.500e-01'') \<noteq> None"
    by (simp add: parse_eval fl_eval)
  from time_axis_ignores_offset
    [of _ _ _ "fresh\<lparr>reads := [Inr ''1.000e-03'', Inr ''0.000e+00'']\<rparr>"
        "''1.000e-03''" "''0.000e+00''" "[]" "''2.500e-01''"] p1 p2
  show ?thesis by (simp add: fresh_def)
qed

end
